theory Spec2Isabelle
  imports Complex_Main
begin

section \<open>JavaScript values that reach the bet prices\<close>

text \<open>
  A price travels from the feed through \<^verbatim>\<open>fetchPrice\<close> into a \<^verbatim>\<open>Number\<close> field of
  the bet document and from there into \<^verbatim>\<open>determineOutcome\<close>. Three kinds of values occur:
  \<^verbatim>\<open>null\<close>, \<^verbatim>\<open>undefined\<close> (a property that is not there) and numbers. A number is a
  finite quantity or \<^verbatim>\<open>NaN\<close>; finite quantities are taken exactly (as rationals): the
  sign of the difference of two finite doubles is the sign of their exact difference, and
  the source looks at nothing but that sign. A decimal string quoted by the feed is
  identified with the number the schema's \<^verbatim>\<open>Number\<close> type casts it to.
\<close>

datatype number = Fin rat | NaN

datatype jsval = JNull | JUndefined | JNumber number

text \<open>\<^verbatim>\<open>ToNumber\<close>, as the operator \<^verbatim>\<open>-\<close> applies it to its operands.\<close>

fun to_number :: "jsval \<Rightarrow> number" where
  "to_number JNull = Fin 0"
| "to_number JUndefined = NaN"
| "to_number (JNumber n) = n"

fun num_minus :: "number \<Rightarrow> number \<Rightarrow> number" where
  "num_minus (Fin a) (Fin b) = Fin (a - b)"
| "num_minus _ _ = NaN"

fun num_neg :: "number \<Rightarrow> number" where
  "num_neg (Fin a) = Fin (- a)"
| "num_neg NaN = NaN"

text \<open>Comparisons with \<^verbatim>\<open>NaN\<close> are false.\<close>

fun num_gt :: "number \<Rightarrow> number \<Rightarrow> bool" where
  "num_gt (Fin a) (Fin b) = (b < a)"
| "num_gt _ _ = False"

fun num_lt :: "number \<Rightarrow> number \<Rightarrow> bool" where
  "num_lt (Fin a) (Fin b) = (a < b)"
| "num_lt _ _ = False"

definition js_minus :: "jsval \<Rightarrow> jsval \<Rightarrow> number" where
  "js_minus x y = num_minus (to_number x) (to_number y)"

section \<open>The bet document and the collection\<close>

text \<open>
  \<^verbatim>\<open>betSchema\<close> (server.js, lines 27-37). \<^verbatim>\<open>startTime\<close> is a time stamp in
  milliseconds. The collection is a list of documents in insertion order: the schema
  declares no unique index, so two documents may carry the same \<^verbatim>\<open>betId\<close>.
\<close>

record bet =
  betId :: nat
  finder :: string
  tokenAddress :: string
  startTime :: nat
  totalBetAmount :: nat
  initialPrice :: jsval
  finalPrice :: jsval
  settled :: bool
  outcome :: "string option"

text \<open>The two keys \<^verbatim>\<open>"initialPrice"\<close> and \<^verbatim>\<open>"finalPrice"\<close> that the callers pass.\<close>

datatype priceKey = InitialPrice | FinalPrice

text \<open>\<^verbatim>\<open>{ $set: { [priceKey]: price } }\<close>. An \<^verbatim>\<open>undefined\<close> value is dropped from
  \<^verbatim>\<open>$set\<close> before the update is sent: the update then changes nothing and the field
  stays what it was. Every other value is written to the field.\<close>

fun set_price :: "priceKey \<Rightarrow> jsval \<Rightarrow> bet \<Rightarrow> bet" where
  "set_price InitialPrice p b = (if p = JUndefined then b else b\<lparr>initialPrice := p\<rparr>)"
| "set_price FinalPrice p b = (if p = JUndefined then b else b\<lparr>finalPrice := p\<rparr>)"

text \<open>\<^verbatim>\<open>Bet.updateOne({ betId }, u)\<close>: the first document that matches is updated, none
  when no document matches.\<close>

fun updateOne :: "nat \<Rightarrow> (bet \<Rightarrow> bet) \<Rightarrow> bet list \<Rightarrow> bet list" where
  "updateOne i u [] = []"
| "updateOne i u (b # bs) = (if betId b = i then u b # bs else b # updateOne i u bs)"

text \<open>\<^verbatim>\<open>Bet.findOne({ betId })\<close>: the first document that matches, \<^verbatim>\<open>null\<close> when
  there is none.\<close>

fun findOne :: "nat \<Rightarrow> bet list \<Rightarrow> bet option" where
  "findOne i [] = None"
| "findOne i (b # bs) = (if betId b = i then Some b else findOne i bs)"

section \<open>What the process prints and sends\<close>

type_synonym err = string

text \<open>The two entry points of the contract that \<^verbatim>\<open>settleBet\<close> encodes.\<close>

datatype txcall = SettleBetNoChange nat | SettleBetCall nat bool

record tx =
  tx_from :: string
  tx_to :: string
  tx_data :: txcall
  tx_gas :: nat
  tx_gasPrice :: nat

text \<open>
  Every \<^verbatim>\<open>console.log\<close> and \<^verbatim>\<open>console.error\<close> of the functions modelled here, in
  the order of the source, and the one call that leaves the process for the chain with a
  signed transaction.
\<close>

datatype event =
    Log_NewBetSaved nat
  | Err_SavingBet err
  | Log_FetchedPrice string jsval
  | Err_FetchingPrice err
  | Log_Outcome nat "bool option"
  | Log_NoChange nat
  | Log_EstimatingGas
  | Log_EstimatedGas nat
  | Log_FetchingGasPrice
  | Log_GasPrice nat
  | Log_SendingFrom string
  | SendSignedTransaction tx
  | Log_BetSettled nat
  | Err_SettlingBet err

section \<open>The price feed: \<^verbatim>\<open>fetchPrice\<close>\<close>

text \<open>
  The answer of the HTTP request. \<open>Failed\<close> is every way in which the body of the
  \<^verbatim>\<open>try\<close> raises (the request rejects, the response has no \<^verbatim>\<open>data\<close>); \<open>Data ps\<close>
  is a response whose \<^verbatim>\<open>data.pairs\<close> is \<open>ps\<close>, \<open>None\<close> when it is missing or
  \<^verbatim>\<open>null\<close>. A pair's \<open>priceUsd\<close> is \<open>JUndefined\<close> when the pair has no such
  property.
\<close>

record pair =
  priceUsd :: jsval

datatype response = Failed err | Data "pair list option"

fun fetchPrice :: "response \<Rightarrow> string \<Rightarrow> jsval \<times> event list" where
  "fetchPrice (Failed e) tok = (JNull, [Err_FetchingPrice e])"
| "fetchPrice (Data None) tok = (JNull, [Log_FetchedPrice tok JNull])"
| "fetchPrice (Data (Some [])) tok = (JNull, [Log_FetchedPrice tok JNull])"
| "fetchPrice (Data (Some (p # ps))) tok = (priceUsd p, [Log_FetchedPrice tok (priceUsd p)])"

section \<open>\<^verbatim>\<open>determineOutcome\<close>\<close>

text \<open>The source returns \<^verbatim>\<open>true\<close> (pump), \<^verbatim>\<open>false\<close> (dump) or \<^verbatim>\<open>null\<close> (no
  change): a \<open>bool option\<close>.\<close>

definition determineOutcome :: "jsval \<Rightarrow> jsval \<Rightarrow> bool option" where
  "determineOutcome initialPrice' finalPrice' =
     (let priceChange = js_minus finalPrice' initialPrice';
          threshold = Fin 0
      in if num_gt priceChange threshold then Some True
         else if num_lt priceChange (num_neg threshold) then Some False
         else None)"

section \<open>\<^verbatim>\<open>settleBet\<close>\<close>

text \<open>
  The chain client as one invocation of \<^verbatim>\<open>settleBet\<close> sees it: the wallet's address,
  the contract's address and the answer of each of the four calls, an error where the call
  rejects. The raw signed transaction is identified with the transaction it signs.
\<close>

record web3 =
  address :: string
  contractAddress :: string
  estimateGas :: "txcall \<Rightarrow> err + nat"
  getGasPrice :: "err + nat"
  signTransaction :: "tx \<Rightarrow> err option"
  sendSignedTransaction :: "tx \<Rightarrow> err + nat"

text \<open>
  \<^verbatim>\<open>Math.floor(gasEstimate * 0.1)\<close> is taken as \<open>gasEstimate div 10\<close>: the two agree
  for every gas estimate below \<open>4 * 10 ^ 7\<close>; for much larger numbers the rounding of
  the double product can make them differ by one. The function takes the bet's id and the outcome and nothing of the
  collection; it returns what it prints and sends.
\<close>

definition settleBet :: "web3 \<Rightarrow> nat \<Rightarrow> bool option \<Rightarrow> event list" where
  "settleBet w bid oc =
     (let (said, txData) =
            (case oc of
               None \<Rightarrow> ([Log_NoChange bid], SettleBetNoChange bid)
             | Some d \<Rightarrow> ([], SettleBetCall bid d))
      in said @ [Log_EstimatingGas] @
         (case estimateGas w txData of
            Inl e \<Rightarrow> [Err_SettlingBet e]
          | Inr gasEstimate \<Rightarrow>
              (let gasBuffer = gasEstimate div 10;
                   gasWithBuffer = gasEstimate + gasBuffer
               in [Log_EstimatedGas gasEstimate, Log_FetchingGasPrice] @
                  (case getGasPrice w of
                     Inl e \<Rightarrow> [Err_SettlingBet e]
                   | Inr gasPrice \<Rightarrow>
                       (let t = \<lparr>tx_from = address w, tx_to = contractAddress w,
                                  tx_data = txData, tx_gas = gasWithBuffer,
                                  tx_gasPrice = gasPrice\<rparr>
                        in [Log_GasPrice gasPrice, Log_SendingFrom (address w)] @
                           (case signTransaction w t of
                              Some e \<Rightarrow> [Err_SettlingBet e]
                            | None \<Rightarrow>
                                SendSignedTransaction t #
                                (case sendSignedTransaction w t of
                                   Inl e \<Rightarrow> [Err_SettlingBet e]
                                 | Inr receipt \<Rightarrow> [Log_BetSettled receipt])))))))"

section \<open>\<^verbatim>\<open>fetchPriceAndUpdateBet\<close>\<close>

text \<open>
  The one raise of the function that no handler catches: \<^verbatim>\<open>bet.initialPrice\<close> when
  \<^verbatim>\<open>findOne\<close> answered \<^verbatim>\<open>null\<close>. The update before it matched no document then, so
  the collection is as it was. The function is taken as one step: what other callbacks
  do between its \<^verbatim>\<open>await\<close>s is not modelled.
\<close>

datatype error = TypeError

definition fetchPriceAndUpdateBet ::
  "response \<Rightarrow> web3 \<Rightarrow> string \<Rightarrow> nat \<Rightarrow> priceKey \<Rightarrow> bet list \<Rightarrow> error + (bet list \<times> event list)"
where
  "fetchPriceAndUpdateBet r w tok bid key db =
     (let (price, said) = fetchPrice r tok
      in if price \<noteq> JNull then
           (let db' = updateOne bid (set_price key price) db
            in if key = FinalPrice then
                 (case findOne bid db' of
                    None \<Rightarrow> Inl TypeError
                  | Some b \<Rightarrow>
                      (let oc = determineOutcome (initialPrice b) (finalPrice b)
                       in Inr (db', said @ [Log_Outcome bid oc] @ settleBet w bid oc)))
               else Inr (db', said))
         else Inr (db, said))"

section \<open>\<^verbatim>\<open>handleNewBetEvent\<close> and the timers\<close>

text \<open>\<^verbatim>\<open>event.returnValues\<close> of a \<^verbatim>\<open>BetInitialized\<close> event.\<close>

record betData =
  ev_betId :: nat
  ev_finder :: string
  ev_tokenAddress :: string
  ev_betAmount :: nat

text \<open>A pending \<^verbatim>\<open>setTimeout\<close>: the time it is due and the arguments of the
  \<^verbatim>\<open>fetchPriceAndUpdateBet\<close> it will call.\<close>

record timer =
  due :: nat
  t_tokenAddress :: string
  t_betId :: nat
  t_priceKey :: priceKey

text \<open>
  The process: the collection (durable, in the database), the pending timers (in the
  memory of the process) and the clock in milliseconds.
\<close>

record state =
  bets :: "bet list"
  timers :: "timer list"
  clock :: nat

text \<open>
  \<open>saved\<close> is the answer of \<^verbatim>\<open>newBet.save()\<close>: \<open>None\<close> when it resolves, the error
  when it rejects. The document is inserted whatever the collection holds: the source
  looks nothing up before it saves.
\<close>

definition handleNewBetEvent :: "err option \<Rightarrow> betData \<Rightarrow> state \<Rightarrow> state \<times> event list" where
  "handleNewBetEvent saved d s =
     (let newBet = \<lparr>betId = ev_betId d, finder = ev_finder d,
                     tokenAddress = ev_tokenAddress d, startTime = clock s,
                     totalBetAmount = ev_betAmount d, initialPrice = JNull,
                     finalPrice = JNull, settled = False, outcome = None\<rparr>
      in case saved of
           Some e \<Rightarrow> (s, [Err_SavingBet e])
         | None \<Rightarrow>
             (s\<lparr>bets := bets s @ [newBet],
                timers := timers s @
                  [\<lparr>due = clock s + 5 * 60 * 1000, t_tokenAddress = ev_tokenAddress d,
                    t_betId = ev_betId d, t_priceKey = InitialPrice\<rparr>,
                   \<lparr>due = clock s + 11 * 60 * 1000, t_tokenAddress = ev_tokenAddress d,
                    t_betId = ev_betId d, t_priceKey = FinalPrice\<rparr>]\<rparr>,
              [Log_NewBetSaved (ev_betId d)]))"

section \<open>The process as a transition system\<close>

text \<open>
  What can happen to the process:
  \<^item> \<open>BetInitialized saved d\<close>: the listener receives an event and calls
    \<^verbatim>\<open>handleNewBetEvent\<close>;
  \<^item> \<open>Tick n\<close>: \<open>n\<close> milliseconds pass;
  \<^item> \<open>TimerFires k r w\<close>: the pending timer number \<open>k\<close> is due and runs, the feed
    answering \<open>r\<close> and the chain client behaving as \<open>w\<close>; a timer runs once, and a
    callback that raises leaves the collection as it was (the line its fetch printed
    before is not kept);
  \<^item> \<open>Restart n\<close>: the process stops and starts again \<open>n\<close> milliseconds later. The
    collection is in the database and stays; the timers were in memory and are gone. The
    top level of server.js (lines 1-55 and 202-204) connects to the database, subscribes
    to new events from the latest block and starts the HTTP server: it reads no bet and
    arms no timer.
\<close>

datatype action =
    BetInitialized "err option" betData
  | Tick nat
  | TimerFires nat response web3
  | Restart nat

fun drop_nth :: "nat \<Rightarrow> 'a list \<Rightarrow> 'a list" where
  "drop_nth k xs = take k xs @ drop (Suc k) xs"

fun step :: "state \<Rightarrow> action \<Rightarrow> state \<times> event list" where
  "step s (BetInitialized saved d) = handleNewBetEvent saved d s"
| "step s (Tick n) = (s\<lparr>clock := clock s + n\<rparr>, [])"
| "step s (TimerFires k r w) =
     (if k < length (timers s) \<and> due (timers s ! k) \<le> clock s then
        (let t = timers s ! k; s' = s\<lparr>timers := drop_nth k (timers s)\<rparr>
         in case fetchPriceAndUpdateBet r w (t_tokenAddress t) (t_betId t) (t_priceKey t) (bets s) of
              Inl e \<Rightarrow> (s', [])
            | Inr (db', said) \<Rightarrow> (s'\<lparr>bets := db'\<rparr>, said))
      else (s, []))"
| "step s (Restart n) = (s\<lparr>timers := [], clock := clock s + n\<rparr>, [])"

fun run :: "state \<Rightarrow> action list \<Rightarrow> state \<times> event list" where
  "run s [] = (s, [])"
| "run s (a # as) =
     (let (s', said) = step s a; (s'', said') = run s' as in (s'', said @ said'))"

definition init :: state where
  "init = \<lparr>bets = [], timers = [], clock = 0\<rparr>"

section \<open>Notions the properties are stated with\<close>

text \<open>The transactions handed to the chain, and what the console shows.\<close>

fun is_send :: "event \<Rightarrow> bool" where
  "is_send (SendSignedTransaction t) = True"
| "is_send _ = False"

definition sends :: "event list \<Rightarrow> event list" where
  "sends evs = filter is_send evs"

definition console :: "event list \<Rightarrow> event list" where
  "console evs = filter (\<lambda>e. \<not> is_send e) evs"

text \<open>The bet a contract call settles.\<close>

fun call_bet :: "txcall \<Rightarrow> nat" where
  "call_bet (SettleBetNoChange i) = i"
| "call_bet (SettleBetCall i d) = i"

text \<open>The call and the transaction that \<^verbatim>\<open>settleBet\<close> builds, by themselves.\<close>

definition call_of :: "nat \<Rightarrow> bool option \<Rightarrow> txcall" where
  "call_of bid oc = (case oc of None \<Rightarrow> SettleBetNoChange bid | Some d \<Rightarrow> SettleBetCall bid d)"

definition tx_of :: "web3 \<Rightarrow> txcall \<Rightarrow> nat \<Rightarrow> nat \<Rightarrow> tx" where
  "tx_of w c g p =
     \<lparr>tx_from = address w, tx_to = contractAddress w, tx_data = c,
      tx_gas = g + g div 10, tx_gasPrice = p\<rparr>"

text \<open>A chain client whose calls before the broadcast all succeed.\<close>

definition signs :: "web3 \<Rightarrow> bool" where
  "signs w \<longleftrightarrow>
     (\<forall>c. \<exists>g. estimateGas w c = Inr g) \<and> (\<exists>p. getGasPrice w = Inr p) \<and>
     (\<forall>t. signTransaction w t = None)"

text \<open>
  The four calls of \<^verbatim>\<open>settleBet\<close> that can reject, in the order the source makes them,
  and the first of them that rejects under a given chain client, with its error.
\<close>

datatype phase = Estimation | GasPriceFetch | Signing | Broadcast

definition failing_phase :: "web3 \<Rightarrow> nat \<Rightarrow> bool option \<Rightarrow> (phase \<times> err) option" where
  "failing_phase w bid oc =
     (case estimateGas w (call_of bid oc) of
        Inl e \<Rightarrow> Some (Estimation, e)
      | Inr g \<Rightarrow>
          (case getGasPrice w of
             Inl e \<Rightarrow> Some (GasPriceFetch, e)
           | Inr p \<Rightarrow>
               (case signTransaction w (tx_of w (call_of bid oc) g p) of
                  Some e \<Rightarrow> Some (Signing, e)
                | None \<Rightarrow>
                    (case sendSignedTransaction w (tx_of w (call_of bid oc) g p) of
                       Inl e \<Rightarrow> Some (Broadcast, e)
                     | Inr receipt \<Rightarrow> None))))"

text \<open>The order of the two prices that the data model asks for.\<close>

definition price_order :: "bet \<Rightarrow> bool" where
  "price_order b \<longleftrightarrow> (finalPrice b \<noteq> JNull \<longrightarrow> initialPrice b \<noteq> JNull)"

text \<open>An action that brings a new event from the chain.\<close>

fun arrives :: "action \<Rightarrow> bool" where
  "arrives (BetInitialized saved d) = True"
| "arrives _ = False"

section \<open>Concrete inputs\<close>

definition chain_up :: web3 where
  "chain_up = \<lparr>address = ''0xdev'', contractAddress = ''0xpod'',
     estimateGas = (\<lambda>c. Inr 100000), getGasPrice = Inr 5,
     signTransaction = (\<lambda>t. None), sendSignedTransaction = (\<lambda>t. Inr 1)\<rparr>"

definition bet7 :: betData where
  "bet7 = \<lparr>ev_betId = 7, ev_finder = ''0xf'', ev_tokenAddress = ''0xt'', ev_betAmount = 10\<rparr>"

definition quote :: "rat \<Rightarrow> response" where
  "quote q = Data (Some [\<lparr>priceUsd = JNumber (Fin q)\<rparr>])"

definition stored7 :: "jsval \<Rightarrow> jsval \<Rightarrow> bool \<Rightarrow> bet" where
  "stored7 ip fp st = \<lparr>betId = 7, finder = ''0xf'', tokenAddress = ''0xt'', startTime = 0,
     totalBetAmount = 10, initialPrice = ip, finalPrice = fp, settled = st, outcome = None\<rparr>"

section \<open>Facts about the collection\<close>

lemma set_price_settled [simp]: "settled (set_price k p b) = settled b"
  by (cases k) auto

lemma set_price_outcome [simp]: "outcome (set_price k p b) = outcome b"
  by (cases k) auto

lemma set_price_betId [simp]: "betId (set_price k p b) = betId b"
  by (cases k) auto

lemma set_price_undefined [simp]: "set_price k JUndefined b = b"
  by (cases k) auto

lemma set_price_final_initialPrice [simp]:
  "initialPrice (set_price FinalPrice p b) = initialPrice b"
  by simp

lemma updateOne_same: "(\<And>b. u b = b) \<Longrightarrow> updateOne i u db = db"
  by (induction db) auto

lemma updateOne_map: "(\<And>b. g (u b) = g b) \<Longrightarrow> map g (updateOne i u db) = map g db"
  by (induction db) auto

lemma findOne_updateOne:
  "(\<And>b. betId (u b) = betId b) \<Longrightarrow> findOne i (updateOne i u db) = map_option u (findOne i db)"
  by (induction db) auto

lemma updateOne_list_all:
  "(\<And>b. P b \<Longrightarrow> P (u b)) \<Longrightarrow> list_all P db \<Longrightarrow> list_all P (updateOne i u db)"
  by (induction db) auto

lemma fetchPriceAndUpdateBet_map:
  assumes "\<And>k p b. g (set_price k p b) = g b"
    and "fetchPriceAndUpdateBet r w tok bid key db = Inr (db', evs)"
  shows "map g db' = map g db"
  using assms(2) updateOne_map [of g "set_price key (fst (fetchPrice r tok))" bid db, OF assms(1)]
  by (auto simp: fetchPriceAndUpdateBet_def Let_def split: prod.splits if_splits option.splits)

lemma fetchPriceAndUpdateBet_list_all:
  assumes "\<And>k p b. P b \<Longrightarrow> P (set_price k p b)"
    and "list_all P db"
    and "fetchPriceAndUpdateBet r w tok bid key db = Inr (db', evs)"
  shows "list_all P db'"
  using assms(3) updateOne_list_all [of P "set_price key (fst (fetchPrice r tok))" db bid] assms(1,2)
  by (auto simp: fetchPriceAndUpdateBet_def Let_def split: prod.splits if_splits option.splits)

text \<open>A property of documents that no price update breaks and that every new document
  has holds of the whole collection after every step, hence after every run.\<close>

lemma step_list_all:
  assumes "\<And>k p b. P b \<Longrightarrow> P (set_price k p b)"
    and "\<And>b. initialPrice b = JNull \<Longrightarrow> finalPrice b = JNull \<Longrightarrow> \<not> settled b \<Longrightarrow>
           outcome b = None \<Longrightarrow> P b"
    and "list_all P (bets s)"
  shows "list_all P (bets (fst (step s a)))"
proof (cases a)
  case (BetInitialized saved d)
  then show ?thesis
    using assms(2,3) by (cases saved) (auto simp: handleNewBetEvent_def Let_def)
next
  case (Tick n)
  then show ?thesis using assms(3) by simp
next
  case (TimerFires k r w)
  then show ?thesis
    using fetchPriceAndUpdateBet_list_all [of P, OF assms(1)] assms(3)
    by (auto simp: Let_def split: sum.splits prod.splits)
next
  case (Restart n)
  then show ?thesis using assms(3) by simp
qed

lemma run_list_all:
  assumes "\<And>k p b. P b \<Longrightarrow> P (set_price k p b)"
    and "\<And>b. initialPrice b = JNull \<Longrightarrow> finalPrice b = JNull \<Longrightarrow> \<not> settled b \<Longrightarrow>
           outcome b = None \<Longrightarrow> P b"
  shows "list_all P (bets s) \<Longrightarrow> list_all P (bets (fst (run s acts)))"
proof (induction acts arbitrary: s)
  case Nil
  then show ?case by simp
next
  case (Cons a acts)
  have "list_all P (bets (fst (step s a)))"
    using step_list_all [of P, OF assms] Cons.prems by blast
  from Cons.IH [OF this] show ?case
    by (simp add: case_prod_unfold Let_def)
qed

section \<open>Facts about settlement and the sample step\<close>

lemma settleBet_unfold:
  "settleBet w bid oc =
     (case oc of None \<Rightarrow> [Log_NoChange bid] | Some d \<Rightarrow> []) @ Log_EstimatingGas #
     (case estimateGas w (call_of bid oc) of
        Inl e \<Rightarrow> [Err_SettlingBet e]
      | Inr g \<Rightarrow> Log_EstimatedGas g # Log_FetchingGasPrice #
          (case getGasPrice w of
             Inl e \<Rightarrow> [Err_SettlingBet e]
           | Inr p \<Rightarrow> Log_GasPrice p # Log_SendingFrom (address w) #
               (case signTransaction w (tx_of w (call_of bid oc) g p) of
                  Some e \<Rightarrow> [Err_SettlingBet e]
                | None \<Rightarrow> SendSignedTransaction (tx_of w (call_of bid oc) g p) #
                    (case sendSignedTransaction w (tx_of w (call_of bid oc) g p) of
                       Inl e \<Rightarrow> [Err_SettlingBet e]
                     | Inr rc \<Rightarrow> [Log_BetSettled rc]))))"
  by (simp add: settleBet_def call_of_def tx_of_def Let_def split: option.splits sum.splits)

lemma call_bet_call_of [simp]: "call_bet (call_of bid oc) = bid"
  by (cases oc) (simp_all add: call_of_def)

lemma tx_data_tx_of [simp]: "tx_data (tx_of w c g p) = c"
  by (simp add: tx_of_def)

lemma settleBet_sends_tx:
  assumes "estimateGas w (call_of bid oc) = Inr g" and "getGasPrice w = Inr p"
    and "signTransaction w (tx_of w (call_of bid oc) g p) = None"
  shows "sends (settleBet w bid oc) = [SendSignedTransaction (tx_of w (call_of bid oc) g p)]"
  using assms by (simp add: settleBet_unfold sends_def split: option.splits sum.splits)

lemma settleBet_sends:
  assumes "signs w"
  shows "\<exists>t. sends (settleBet w bid oc) = [SendSignedTransaction t] \<and> tx_data t = call_of bid oc"
proof -
  from assms obtain g p where "estimateGas w (call_of bid oc) = Inr g"
    and "getGasPrice w = Inr p"
    and "signTransaction w (tx_of w (call_of bid oc) g p) = None"
    unfolding signs_def by metis
  then show ?thesis
    using settleBet_sends_tx [of w bid oc g p] by simp
qed

lemma settleBet_sends_le: "length (sends (settleBet w bid oc)) \<le> 1"
  by (simp add: settleBet_unfold sends_def split: option.splits sum.splits)

lemma fetchPrice_said: "sends (snd (fetchPrice r tok)) = []"
  by (cases "(r, tok)" rule: fetchPrice.cases) (simp_all add: sends_def)

lemma fetchPrice_no_settled: "Log_BetSettled rc \<notin> set (snd (fetchPrice r tok))"
  by (cases "(r, tok)" rule: fetchPrice.cases) simp_all

lemma fetchPriceAndUpdateBet_final:
  assumes "fst (fetchPrice r tok) \<noteq> JNull" and "findOne bid db = Some b"
  shows "fetchPriceAndUpdateBet r w tok bid FinalPrice db =
     Inr (updateOne bid (set_price FinalPrice (fst (fetchPrice r tok))) db,
          snd (fetchPrice r tok) @
          Log_Outcome bid (determineOutcome (initialPrice b)
            (finalPrice (set_price FinalPrice (fst (fetchPrice r tok)) b))) #
          settleBet w bid (determineOutcome (initialPrice b)
            (finalPrice (set_price FinalPrice (fst (fetchPrice r tok)) b))))"
  using assms
  by (simp add: fetchPriceAndUpdateBet_def Let_def case_prod_unfold findOne_updateOne
      del: set_price.simps)

lemma fetchPriceAndUpdateBet_null:
  assumes "fst (fetchPrice r tok) = JNull"
  shows "fetchPriceAndUpdateBet r w tok bid key db = Inr (db, snd (fetchPrice r tok))"
  using assms by (simp add: fetchPriceAndUpdateBet_def Let_def case_prod_unfold)

lemma fetchPriceAndUpdateBet_initial:
  "fetchPriceAndUpdateBet r w tok bid InitialPrice db =
     Inr (if fst (fetchPrice r tok) = JNull then db
          else updateOne bid (set_price InitialPrice (fst (fetchPrice r tok))) db,
          snd (fetchPrice r tok))"
  by (simp add: fetchPriceAndUpdateBet_def Let_def case_prod_unfold)

section \<open>Facts about runs\<close>

lemma handleNewBetEvent_saved:
  "length (filter (\<lambda>b. betId b = ev_betId d) (bets (fst (handleNewBetEvent None d s)))) =
     Suc (length (filter (\<lambda>b. betId b = ev_betId d) (bets s))) \<and>
   length (bets (fst (handleNewBetEvent None d s))) = Suc (length (bets s)) \<and>
   length (timers (fst (handleNewBetEvent None d s))) = length (timers s) + 2"
  by (simp add: handleNewBetEvent_def Let_def)

lemma step_no_timers:
  assumes "timers s = []" and "\<not> arrives a"
  shows "bets (fst (step s a)) = bets s \<and> timers (fst (step s a)) = [] \<and> snd (step s a) = []"
  using assms by (cases a) simp_all

lemma run_no_timers:
  "timers s = [] \<Longrightarrow> list_all (\<lambda>a. \<not> arrives a) acts \<Longrightarrow>
     bets (fst (run s acts)) = bets s \<and> timers (fst (run s acts)) = [] \<and> snd (run s acts) = []"
proof (induction acts arbitrary: s)
  case Nil
  then show ?case by simp
next
  case (Cons a acts)
  then have a: "bets (fst (step s a)) = bets s \<and> timers (fst (step s a)) = [] \<and> snd (step s a) = []"
    using step_no_timers [of s a] by simp
  with Cons.IH [of "fst (step s a)"] Cons.prems show ?case
    by (simp add: case_prod_unfold Let_def)
qed

lemma updateOne_list_all_found:
  "list_all P db \<Longrightarrow> (\<And>b. findOne i db = Some b \<Longrightarrow> P b \<Longrightarrow> P (u b)) \<Longrightarrow>
     list_all P (updateOne i u db)"
  by (induction db) auto

lemma step_timers_le: "length (timers (fst (step s (TimerFires k r w)))) \<le> length (timers s)"
  by (auto simp: Let_def split: sum.splits prod.splits)

section \<open>The outcome policy\<close>

text \<open>
  Claim C4. For two recorded prices, \<^verbatim>\<open>determineOutcome\<close> follows the sign of
  \<open>delta = finalPrice - initialPrice\<close> with a threshold of zero: a positive \<open>delta\<close>
  gives pump (\<^verbatim>\<open>true\<close>), a negative one dump (\<^verbatim>\<open>false\<close>), and \<open>delta = 0\<close> no change
  (\<^verbatim>\<open>null\<close>). From 100 to 105 is a pump, from 100 to 95 a dump, from 100 to 100 no
  change.
\<close>

theorem determineOutcome_policy:
  "(0 < f - i \<longrightarrow> determineOutcome (JNumber (Fin i)) (JNumber (Fin f)) = Some True) \<and>
   (f - i < 0 \<longrightarrow> determineOutcome (JNumber (Fin i)) (JNumber (Fin f)) = Some False) \<and>
   (f - i = 0 \<longrightarrow> determineOutcome (JNumber (Fin i)) (JNumber (Fin f)) = None) \<and>
   determineOutcome (JNumber (Fin 100)) (JNumber (Fin 105)) = Some True \<and>
   determineOutcome (JNumber (Fin 100)) (JNumber (Fin 95)) = Some False \<and>
   determineOutcome (JNumber (Fin 100)) (JNumber (Fin 100)) = None"
  by (simp add: determineOutcome_def js_minus_def)

theorem determineOutcome_policy_witness:
  "(0::rat) < 3 - 2 \<and> determineOutcome (JNumber (Fin 2)) (JNumber (Fin 3)) = Some True \<and>
   (1::rat) - 4 < 0 \<and> determineOutcome (JNumber (Fin 4)) (JNumber (Fin 1)) = Some False \<and>
   (6::rat) - 6 = 0 \<and> determineOutcome (JNumber (Fin 6)) (JNumber (Fin 6)) = None"
  using determineOutcome_policy [of 3 2] determineOutcome_policy [of 1 4]
    determineOutcome_policy [of 6 6]
  by simp

section \<open>The price feed and the sample step\<close>

text \<open>
  Claim C8. \<^verbatim>\<open>fetchPrice\<close> answers \<^verbatim>\<open>null\<close> (it does not raise) when the request
  fails, when the response lists no pairs, and when the list of pairs is empty. When the
  fetch of a sample step answers \<^verbatim>\<open>null\<close>, the step leaves the collection as it was
  (the price field stays as it is) and does nothing but print the line of the fetch: no
  outcome is computed and no settlement is started.
\<close>

theorem fetchPrice_not_available:
  "fst (fetchPrice (Failed e) tok) = JNull \<and>
   fst (fetchPrice (Data None) tok) = JNull \<and>
   fst (fetchPrice (Data (Some [])) tok) = JNull \<and>
   (fst (fetchPrice r tok) = JNull \<longrightarrow>
      (\<exists>ev. fetchPriceAndUpdateBet r w tok bid key db = Inr (db, [ev]) \<and>
            (ev = Log_FetchedPrice tok JNull \<or> (\<exists>e'. ev = Err_FetchingPrice e'))))"
proof -
  have "fst (fetchPrice r tok) = JNull \<Longrightarrow>
      \<exists>ev. snd (fetchPrice r tok) = [ev] \<and>
            (ev = Log_FetchedPrice tok JNull \<or> (\<exists>e'. ev = Err_FetchingPrice e'))"
    by (cases "(r, tok)" rule: fetchPrice.cases) simp_all
  then show ?thesis
    by (auto simp: fetchPriceAndUpdateBet_null)
qed

theorem fetchPrice_not_available_witness:
  "fst (fetchPrice (Data (Some [])) ''0xt'') = JNull \<and>
   fetchPriceAndUpdateBet (Data (Some [])) chain_up ''0xt'' 7 FinalPrice
       [stored7 (JNumber (Fin 100)) JNull False] =
     Inr ([stored7 (JNumber (Fin 100)) JNull False], [Log_FetchedPrice ''0xt'' JNull])"
  using fetchPrice_not_available [of "''x''" "''0xt''" "Data (Some [])" chain_up 7 FinalPrice
      "[stored7 (JNumber (Fin 100)) JNull False]"]
  by (auto simp: fetchPriceAndUpdateBet_def)

text \<open>
  Claim C10, as the code has it. A response whose list of pairs is not empty and whose
  first pair has no \<^verbatim>\<open>priceUsd\<close> makes \<^verbatim>\<open>fetchPrice\<close> answer \<^verbatim>\<open>undefined\<close>,
  which is not \<^verbatim>\<open>null\<close> and so passes the guard of the sample step. The update that
  follows changes nothing: the price field is not set to \<^verbatim>\<open>undefined\<close>, it stays what
  it was. For the final sample the step goes on all the same: the outcome is computed
  from the two prices of the stored document as they were before the sample, it is
  printed, and \<^verbatim>\<open>settleBet\<close> is called with it, which sends the settlement of that
  outcome when the chain client lets it.
\<close>

theorem undefined_price_passes_guard:
  "fst (fetchPrice (Data (Some (\<lparr>priceUsd = JUndefined\<rparr> # ps))) tok) = JUndefined \<and>
   JUndefined \<noteq> JNull \<and>
   fetchPriceAndUpdateBet (Data (Some (\<lparr>priceUsd = JUndefined\<rparr> # ps))) w tok bid InitialPrice db =
     Inr (db, [Log_FetchedPrice tok JUndefined]) \<and>
   (findOne bid db = Some b \<longrightarrow>
      fetchPriceAndUpdateBet (Data (Some (\<lparr>priceUsd = JUndefined\<rparr> # ps))) w tok bid FinalPrice db =
        Inr (db,
             [Log_FetchedPrice tok JUndefined,
              Log_Outcome bid (determineOutcome (initialPrice b) (finalPrice b))] @
             settleBet w bid (determineOutcome (initialPrice b) (finalPrice b))) \<and>
      (signs w \<longrightarrow>
         (\<exists>t. sends (settleBet w bid (determineOutcome (initialPrice b) (finalPrice b))) =
                 [SendSignedTransaction t] \<and>
              tx_data t = call_of bid (determineOutcome (initialPrice b) (finalPrice b)))))"
  using settleBet_sends [of w bid "determineOutcome (initialPrice b) (finalPrice b)"]
  by (simp add: fetchPriceAndUpdateBet_final fetchPriceAndUpdateBet_initial updateOne_same
      del: set_price.simps)

theorem undefined_price_passes_guard_witness:
  "findOne 7 [stored7 (JNumber (Fin 50)) JNull False] = Some (stored7 (JNumber (Fin 50)) JNull False) \<and>
   signs chain_up \<and>
   fetchPriceAndUpdateBet
       (Data (Some [\<lparr>priceUsd = JUndefined\<rparr>, \<lparr>priceUsd = JNumber (Fin 3)\<rparr>]))
       chain_up ''0xt'' 7 FinalPrice [stored7 (JNumber (Fin 50)) JNull False] =
     Inr ([stored7 (JNumber (Fin 50)) JNull False],
          [Log_FetchedPrice ''0xt'' JUndefined, Log_Outcome 7 (Some False),
           Log_EstimatingGas, Log_EstimatedGas 100000, Log_FetchingGasPrice, Log_GasPrice 5,
           Log_SendingFrom ''0xdev'',
           SendSignedTransaction \<lparr>tx_from = ''0xdev'', tx_to = ''0xpod'',
             tx_data = SettleBetCall 7 False, tx_gas = 110000, tx_gasPrice = 5\<rparr>,
           Log_BetSettled 1])"
proof -
  have doc: "findOne 7 [stored7 (JNumber (Fin 50)) JNull False] =
      Some (stored7 (JNumber (Fin 50)) JNull False)"
    by (simp add: stored7_def)
  have up: "signs chain_up"
    by (simp add: signs_def chain_up_def)
  have oc: "determineOutcome (initialPrice (stored7 (JNumber (Fin 50)) JNull False))
      (finalPrice (stored7 (JNumber (Fin 50)) JNull False)) = Some False"
    by (simp add: stored7_def determineOutcome_def js_minus_def)
  have settle: "settleBet chain_up 7 (Some False) =
      [Log_EstimatingGas, Log_EstimatedGas 100000, Log_FetchingGasPrice, Log_GasPrice 5,
       Log_SendingFrom ''0xdev'',
       SendSignedTransaction \<lparr>tx_from = ''0xdev'', tx_to = ''0xpod'',
         tx_data = SettleBetCall 7 False, tx_gas = 110000, tx_gasPrice = 5\<rparr>,
       Log_BetSettled 1]"
    by (simp add: settleBet_def chain_up_def)
  from undefined_price_passes_guard [of "[\<lparr>priceUsd = JNumber (Fin 3)\<rparr>]" "''0xt''" chain_up 7
      "[stored7 (JNumber (Fin 50)) JNull False]" "stored7 (JNumber (Fin 50)) JNull False"] doc
  have "fetchPriceAndUpdateBet
       (Data (Some [\<lparr>priceUsd = JUndefined\<rparr>, \<lparr>priceUsd = JNumber (Fin 3)\<rparr>]))
       chain_up ''0xt'' 7 FinalPrice [stored7 (JNumber (Fin 50)) JNull False] =
     Inr ([stored7 (JNumber (Fin 50)) JNull False],
          [Log_FetchedPrice ''0xt'' JUndefined,
           Log_Outcome 7 (determineOutcome (initialPrice (stored7 (JNumber (Fin 50)) JNull False))
             (finalPrice (stored7 (JNumber (Fin 50)) JNull False)))] @
          settleBet chain_up 7 (determineOutcome (initialPrice (stored7 (JNumber (Fin 50)) JNull False))
             (finalPrice (stored7 (JNumber (Fin 50)) JNull False))))"
    by blast
  then show ?thesis
    using doc up by (simp only: oc settle append.simps simp_thms)
qed

text \<open>The claim as the specification states it fails: the first pair has no
  \<^verbatim>\<open>priceUsd\<close>, and after the final sample the final price of the document is still
  \<^verbatim>\<open>null\<close>, not \<^verbatim>\<open>undefined\<close>; the outcome, computed from the prices 100 and
  \<^verbatim>\<open>null\<close>, is \<^verbatim>\<open>false\<close>, and the directional settlement is sent.\<close>

theorem undefined_not_stored_counterexample:
  "fetchPriceAndUpdateBet (Data (Some [\<lparr>priceUsd = JUndefined\<rparr>])) chain_up ''0xt'' 7 FinalPrice
       [stored7 (JNumber (Fin 100)) JNull False] =
     Inr ([stored7 (JNumber (Fin 100)) JNull False],
          [Log_FetchedPrice ''0xt'' JUndefined, Log_Outcome 7 (Some False),
           Log_EstimatingGas, Log_EstimatedGas 100000, Log_FetchingGasPrice, Log_GasPrice 5,
           Log_SendingFrom ''0xdev'',
           SendSignedTransaction \<lparr>tx_from = ''0xdev'', tx_to = ''0xpod'',
             tx_data = SettleBetCall 7 False, tx_gas = 110000, tx_gasPrice = 5\<rparr>,
           Log_BetSettled 1]) \<and>
   finalPrice (stored7 (JNumber (Fin 100)) JNull False) = JNull \<and>
   finalPrice (stored7 (JNumber (Fin 100)) JNull False) \<noteq> JUndefined"
  by (simp add: fetchPriceAndUpdateBet_def stored7_def chain_up_def settleBet_def
      determineOutcome_def js_minus_def)

section \<open>Settlement and the \<^verbatim>\<open>settled\<close> flag\<close>

text \<open>
  Claim C2, as the code has it. A confirmed broadcast does not update the collection:
  \<^verbatim>\<open>settleBet\<close> prints the receipt and writes nothing. When a sample step ends with a
  confirmed broadcast, it was the final sample, the one write to the collection was the
  final price of the bet, and the \<^verbatim>\<open>settled\<close> field of every document is what it was
  before the step.
\<close>

theorem settled_unchanged_by_broadcast:
  assumes "fetchPriceAndUpdateBet r w tok bid key db = Inr (db', evs)"
    and "Log_BetSettled rc \<in> set evs"
  shows "map settled db' = map settled db \<and> key = FinalPrice \<and>
         db' = updateOne bid (set_price FinalPrice (fst (fetchPrice r tok))) db"
proof -
  have "map settled db' = map settled db"
    using fetchPriceAndUpdateBet_map [of settled, OF _ assms(1)] by simp
  moreover have k: "key = FinalPrice \<and> fst (fetchPrice r tok) \<noteq> JNull"
  proof (rule ccontr)
    assume "\<not> (key = FinalPrice \<and> fst (fetchPrice r tok) \<noteq> JNull)"
    then have "evs = snd (fetchPrice r tok)"
      using assms(1)
      by (cases key)
         (auto simp: fetchPriceAndUpdateBet_initial fetchPriceAndUpdateBet_null split: if_splits)
    with assms(2) fetchPrice_no_settled show False by blast
  qed
  moreover have "db' = updateOne bid (set_price FinalPrice (fst (fetchPrice r tok))) db"
    using assms(1) k
    by (auto simp: fetchPriceAndUpdateBet_def Let_def case_prod_unfold split: option.splits)
  ultimately show ?thesis by blast
qed

theorem settled_unchanged_by_broadcast_witness:
  "fetchPriceAndUpdateBet (quote 95) chain_up ''0xt'' 7 FinalPrice
       [stored7 (JNumber (Fin 100)) JNull False] =
     Inr ([stored7 (JNumber (Fin 100)) (JNumber (Fin 95)) False],
          [Log_FetchedPrice ''0xt'' (JNumber (Fin 95)), Log_Outcome 7 (Some False),
           Log_EstimatingGas, Log_EstimatedGas 100000, Log_FetchingGasPrice, Log_GasPrice 5,
           Log_SendingFrom ''0xdev'',
           SendSignedTransaction \<lparr>tx_from = ''0xdev'', tx_to = ''0xpod'',
             tx_data = SettleBetCall 7 False, tx_gas = 110000, tx_gasPrice = 5\<rparr>,
           Log_BetSettled 1]) \<and>
   map settled [stored7 (JNumber (Fin 100)) (JNumber (Fin 95)) False] =
     map settled [stored7 (JNumber (Fin 100)) JNull False]"
proof -
  have sample: "fetchPriceAndUpdateBet (quote 95) chain_up ''0xt'' 7 FinalPrice
       [stored7 (JNumber (Fin 100)) JNull False] =
     Inr ([stored7 (JNumber (Fin 100)) (JNumber (Fin 95)) False],
          [Log_FetchedPrice ''0xt'' (JNumber (Fin 95)), Log_Outcome 7 (Some False),
           Log_EstimatingGas, Log_EstimatedGas 100000, Log_FetchingGasPrice, Log_GasPrice 5,
           Log_SendingFrom ''0xdev'',
           SendSignedTransaction \<lparr>tx_from = ''0xdev'', tx_to = ''0xpod'',
             tx_data = SettleBetCall 7 False, tx_gas = 110000, tx_gasPrice = 5\<rparr>,
           Log_BetSettled 1])"
    by (simp add: fetchPriceAndUpdateBet_def quote_def stored7_def chain_up_def settleBet_def
        determineOutcome_def js_minus_def)
  from settled_unchanged_by_broadcast [OF sample, of 1] sample show ?thesis by simp
qed

text \<open>The claim as the specification states it fails: the bet below is settled on the
  chain with a receipt, and its document still says \<^verbatim>\<open>settled: false\<close>.\<close>

theorem settled_not_set_counterexample:
  "fetchPriceAndUpdateBet (quote 105) chain_up ''0xt'' 7 FinalPrice
       [stored7 (JNumber (Fin 100)) JNull False] =
     Inr ([stored7 (JNumber (Fin 100)) (JNumber (Fin 105)) False],
          [Log_FetchedPrice ''0xt'' (JNumber (Fin 105)), Log_Outcome 7 (Some True),
           Log_EstimatingGas, Log_EstimatedGas 100000, Log_FetchingGasPrice, Log_GasPrice 5,
           Log_SendingFrom ''0xdev'',
           SendSignedTransaction \<lparr>tx_from = ''0xdev'', tx_to = ''0xpod'',
             tx_data = SettleBetCall 7 True, tx_gas = 110000, tx_gasPrice = 5\<rparr>,
           Log_BetSettled 1]) \<and>
   settled (stored7 (JNumber (Fin 100)) (JNumber (Fin 105)) False) = False"
  by (simp add: fetchPriceAndUpdateBet_def quote_def stored7_def chain_up_def settleBet_def
      determineOutcome_def js_minus_def)

text \<open>
  Claim C1, as the code has it. \<^verbatim>\<open>settleBet\<close> makes no check of the stored
  \<^verbatim>\<open>settled\<close> flag: it does not read the collection. No step of the process writes
  the flag, so from a collection where every bet is unsettled every run leads to one where
  every bet is unsettled: the flag goes from false to true zero times. And a final sample
  that obtains a price for a stored bet, under a chain client that signs, sends one
  settlement transaction for that bet whatever the document's flag says, so a bet is
  submitted once for each such sample.
\<close>

theorem settled_never_written:
  "(list_all (\<lambda>b. \<not> settled b) (bets s) \<longrightarrow>
      list_all (\<lambda>b. \<not> settled b) (bets (fst (run s acts)))) \<and>
   (signs w \<and> findOne bid db = Some b \<and> fst (fetchPrice r tok) \<noteq> JNull \<longrightarrow>
      (\<exists>db' evs t. fetchPriceAndUpdateBet r w tok bid FinalPrice db = Inr (db', evs) \<and>
         sends evs = [SendSignedTransaction t] \<and> call_bet (tx_data t) = bid \<and>
         map settled db' = map settled db))"
proof -
  have "list_all (\<lambda>b. \<not> settled b) (bets s) \<Longrightarrow>
      list_all (\<lambda>b. \<not> settled b) (bets (fst (run s acts)))"
    by (rule run_list_all) simp_all
  moreover have "\<exists>db' evs t. fetchPriceAndUpdateBet r w tok bid FinalPrice db = Inr (db', evs) \<and>
         sends evs = [SendSignedTransaction t] \<and> call_bet (tx_data t) = bid \<and>
         map settled db' = map settled db"
    if h: "signs w" "findOne bid db = Some b" "fst (fetchPrice r tok) \<noteq> JNull"
  proof -
    let ?oc = "determineOutcome (initialPrice b)
        (finalPrice (set_price FinalPrice (fst (fetchPrice r tok)) b))"
    obtain t where t: "sends (settleBet w bid ?oc) = [SendSignedTransaction t]"
      "tx_data t = call_of bid ?oc"
      using settleBet_sends [OF h(1)] by blast
    have "sends (snd (fetchPrice r tok) @ Log_Outcome bid ?oc # settleBet w bid ?oc) =
        [SendSignedTransaction t]"
      using t(1) fetchPrice_said [of r tok] by (simp add: sends_def)
    then show ?thesis
      using fetchPriceAndUpdateBet_final [OF h(3) h(2), of w] t(2)
      by (simp add: updateOne_map del: set_price.simps)
  qed
  ultimately show ?thesis by blast
qed

theorem settled_never_written_witness:
  "list_all (\<lambda>b. \<not> settled b) (bets init) \<and>
   list_all (\<lambda>b. \<not> settled b) (bets (fst (run init [BetInitialized None bet7, Tick 660000,
      TimerFires 1 (quote 105) chain_up]))) \<and>
   signs chain_up \<and>
   findOne 7 [stored7 (JNumber (Fin 100)) JNull True] = Some (stored7 (JNumber (Fin 100)) JNull True) \<and>
   fst (fetchPrice (quote 105) ''0xt'') \<noteq> JNull \<and>
   (\<exists>db' evs t. fetchPriceAndUpdateBet (quote 105) chain_up ''0xt'' 7 FinalPrice
        [stored7 (JNumber (Fin 100)) JNull True] = Inr (db', evs) \<and>
      sends evs = [SendSignedTransaction t] \<and> call_bet (tx_data t) = 7 \<and>
      map settled db' = map settled [stored7 (JNumber (Fin 100)) JNull True])"
  using settled_never_written [of init "[BetInitialized None bet7, Tick 660000,
      TimerFires 1 (quote 105) chain_up]" chain_up 7 "[stored7 (JNumber (Fin 100)) JNull True]"
      "stored7 (JNumber (Fin 100)) JNull True" "quote 105" "''0xt''"]
  by (simp add: init_def signs_def chain_up_def stored7_def quote_def)

text \<open>The claim as the specification states it fails. A creation event delivered twice
  arms two final samples, and each of them sends a settlement for bet 7; and a final
  sample for a document that already says \<^verbatim>\<open>settled: true\<close> sends one as well.\<close>

theorem settle_twice_counterexample:
  "sends (snd (run init [BetInitialized None bet7, BetInitialized None bet7, Tick 300000,
       TimerFires 0 (quote 100) chain_up, TimerFires 1 (quote 100) chain_up, Tick 360000,
       TimerFires 0 (quote 105) chain_up, TimerFires 0 (quote 105) chain_up])) =
     [SendSignedTransaction \<lparr>tx_from = ''0xdev'', tx_to = ''0xpod'',
        tx_data = SettleBetCall 7 True, tx_gas = 110000, tx_gasPrice = 5\<rparr>,
      SendSignedTransaction \<lparr>tx_from = ''0xdev'', tx_to = ''0xpod'',
        tx_data = SettleBetCall 7 True, tx_gas = 110000, tx_gasPrice = 5\<rparr>] \<and>
   fetchPriceAndUpdateBet (quote 105) chain_up ''0xt'' 7 FinalPrice
       [stored7 (JNumber (Fin 100)) JNull True] =
     Inr ([stored7 (JNumber (Fin 100)) (JNumber (Fin 105)) True],
          [Log_FetchedPrice ''0xt'' (JNumber (Fin 105)), Log_Outcome 7 (Some True),
           Log_EstimatingGas, Log_EstimatedGas 100000, Log_FetchingGasPrice, Log_GasPrice 5,
           Log_SendingFrom ''0xdev'',
           SendSignedTransaction \<lparr>tx_from = ''0xdev'', tx_to = ''0xpod'',
             tx_data = SettleBetCall 7 True, tx_gas = 110000, tx_gasPrice = 5\<rparr>,
           Log_BetSettled 1])"
  by (simp add: handleNewBetEvent_def init_def bet7_def fetchPriceAndUpdateBet_def quote_def
      stored7_def chain_up_def settleBet_def determineOutcome_def js_minus_def sends_def)

section \<open>Creation\<close>

text \<open>
  Claim C3, as the code has it. \<^verbatim>\<open>handleNewBetEvent\<close> looks nothing up before it
  saves: every creation event whose save succeeds adds one document and arms two timers,
  whether or not a document with that \<^verbatim>\<open>betId\<close> is stored. After \<open>n\<close> events with
  the same \<^verbatim>\<open>betId\<close> the collection holds \<open>n\<close> more documents with it, and there
  are \<open>2 * n\<close> more timers.
\<close>

theorem create_appends_every_time:
  "length (filter (\<lambda>b. betId b = ev_betId d)
       (bets (fst (run s (replicate n (BetInitialized None d)))))) =
     length (filter (\<lambda>b. betId b = ev_betId d) (bets s)) + n \<and>
   length (bets (fst (run s (replicate n (BetInitialized None d))))) = length (bets s) + n \<and>
   length (timers (fst (run s (replicate n (BetInitialized None d))))) =
     length (timers s) + 2 * n"
proof (induction n arbitrary: s)
  case 0
  then show ?case by simp
next
  case (Suc n)
  show ?case
    using Suc.IH [of "fst (handleNewBetEvent None d s)"] handleNewBetEvent_saved [of d s]
    by (simp add: case_prod_unfold Let_def)
qed

theorem create_appends_every_time_witness:
  "length (filter (\<lambda>b. betId b = 7) (bets (fst (run init [BetInitialized None bet7,
      BetInitialized None bet7, BetInitialized None bet7])))) = 3"
  using create_appends_every_time [of bet7 init 3]
  by (simp add: bet7_def init_def numeral_3_eq_3)

text \<open>The claim as the specification states it fails: two events with the same
  \<^verbatim>\<open>betId\<close> leave two documents and four timers.\<close>

theorem create_duplicate_counterexample:
  "map betId (bets (fst (run init [BetInitialized None bet7, BetInitialized None bet7]))) = [7, 7] \<and>
   map due (timers (fst (run init [BetInitialized None bet7, BetInitialized None bet7]))) =
     [300000, 660000, 300000, 660000] \<and>
   map t_betId (timers (fst (run init [BetInitialized None bet7, BetInitialized None bet7]))) =
     [7, 7, 7, 7]"
  by (simp add: handleNewBetEvent_def init_def bet7_def)

section \<open>Restart\<close>

text \<open>
  Claim C5, as the code has it. Scheduling does not survive a restart: the timers live
  in the memory of the process, and at its start the process reads no bet and arms no
  timer. After a restart there is no pending timer, and as long as no new event arrives
  the collection stays as it was and nothing is printed or sent: the samples of the bets
  stored before the restart are never taken.
\<close>

theorem restart_arms_nothing:
  "timers (fst (step s (Restart n))) = [] \<and> bets (fst (step s (Restart n))) = bets s \<and>
   snd (step s (Restart n)) = [] \<and>
   (list_all (\<lambda>a. \<not> arrives a) acts \<longrightarrow>
      bets (fst (run (fst (step s (Restart n))) acts)) = bets s \<and>
      timers (fst (run (fst (step s (Restart n))) acts)) = [] \<and>
      snd (run (fst (step s (Restart n))) acts) = [])"
  using run_no_timers [of "fst (step s (Restart n))" acts] by simp

theorem restart_arms_nothing_witness:
  "list_all (\<lambda>a. \<not> arrives a) [Tick 1200000, TimerFires 0 (quote 100) chain_up] \<and>
   bets (fst (run (fst (step \<lparr>bets = [stored7 JNull JNull False], timers = [], clock = 0\<rparr>
        (Restart 5)))
      [Tick 1200000, TimerFires 0 (quote 100) chain_up])) = [stored7 JNull JNull False] \<and>
   snd (run (fst (step \<lparr>bets = [stored7 JNull JNull False], timers = [], clock = 0\<rparr>
        (Restart 5)))
      [Tick 1200000, TimerFires 0 (quote 100) chain_up]) = []"
  using restart_arms_nothing [of "\<lparr>bets = [stored7 JNull JNull False], timers = [], clock = 0\<rparr>"
      5 "[Tick 1200000, TimerFires 0 (quote 100) chain_up]"]
  by simp

text \<open>The claim as the specification states it fails: a bet is created, the process is
  down for twenty minutes and starts again; no sample step runs at the start or later,
  and the prices stay \<^verbatim>\<open>null\<close>.\<close>

theorem restart_loses_samples_counterexample:
  "run init [BetInitialized None bet7, Restart 1200000,
       TimerFires 0 (quote 100) chain_up, TimerFires 1 (quote 105) chain_up, Tick 660000,
       TimerFires 0 (quote 100) chain_up, TimerFires 1 (quote 105) chain_up] =
     (\<lparr>bets = [stored7 JNull JNull False], timers = [], clock = 1860000\<rparr>, [Log_NewBetSaved 7])"
  by (simp add: handleNewBetEvent_def init_def bet7_def stored7_def)

section \<open>The stored outcome\<close>




section \<open>The order of the two prices\<close>

text \<open>
  Claim C7, as the code has it. Each sample step writes its own field and reads nothing
  of the other: the final step makes no check of the initial price. A sample step keeps
  the order of the prices (no final price beside a \<^verbatim>\<open>null\<close> initial price) in the
  whole collection provided that, when it is a final sample, the document it finds has
  its initial price recorded. When the initial sample was dropped the proviso fails, and
  so does the order.
\<close>

theorem price_order_kept:
  assumes "list_all price_order db"
    and "fetchPriceAndUpdateBet r w tok bid key db = Inr (db', evs)"
    and "key = FinalPrice \<longrightarrow> (\<forall>b. findOne bid db = Some b \<longrightarrow> initialPrice b \<noteq> JNull)"
  shows "list_all price_order db'"
proof (cases "fst (fetchPrice r tok) = JNull")
  case True
  with assms(1,2) show ?thesis
    by (simp add: fetchPriceAndUpdateBet_null)
next
  case False
  have "\<And>b. findOne bid db = Some b \<Longrightarrow> price_order b \<Longrightarrow>
      price_order (set_price key (fst (fetchPrice r tok)) b)"
    using assms(3) False by (cases key) (auto simp: price_order_def)
  then have "list_all price_order (updateOne bid (set_price key (fst (fetchPrice r tok))) db)"
    by (rule updateOne_list_all_found [OF assms(1)])
  moreover have "db' = updateOne bid (set_price key (fst (fetchPrice r tok))) db"
    using assms(2) False
    by (auto simp: fetchPriceAndUpdateBet_def Let_def case_prod_unfold split: if_splits option.splits)
  ultimately show ?thesis by simp
qed

theorem price_order_kept_witness:
  "list_all price_order [stored7 (JNumber (Fin 100)) JNull False] \<and>
   findOne 7 [stored7 (JNumber (Fin 100)) JNull False] =
     Some (stored7 (JNumber (Fin 100)) JNull False) \<and>
   initialPrice (stored7 (JNumber (Fin 100)) JNull False) \<noteq> JNull \<and>
   fetchPriceAndUpdateBet (quote 100) chain_up ''0xt'' 7 FinalPrice
       [stored7 (JNumber (Fin 100)) JNull False] =
     Inr ([stored7 (JNumber (Fin 100)) (JNumber (Fin 100)) False],
          [Log_FetchedPrice ''0xt'' (JNumber (Fin 100)), Log_Outcome 7 None, Log_NoChange 7,
           Log_EstimatingGas, Log_EstimatedGas 100000, Log_FetchingGasPrice, Log_GasPrice 5,
           Log_SendingFrom ''0xdev'',
           SendSignedTransaction \<lparr>tx_from = ''0xdev'', tx_to = ''0xpod'',
             tx_data = SettleBetNoChange 7, tx_gas = 110000, tx_gasPrice = 5\<rparr>,
           Log_BetSettled 1]) \<and>
   list_all price_order [stored7 (JNumber (Fin 100)) (JNumber (Fin 100)) False]"
proof -
  have start: "list_all price_order [stored7 (JNumber (Fin 100)) JNull False]"
    by (simp add: price_order_def stored7_def)
  have found: "\<forall>b. findOne 7 [stored7 (JNumber (Fin 100)) JNull False] = Some b \<longrightarrow>
      initialPrice b \<noteq> JNull"
    by (simp add: stored7_def)
  have sample: "fetchPriceAndUpdateBet (quote 100) chain_up ''0xt'' 7 FinalPrice
       [stored7 (JNumber (Fin 100)) JNull False] =
     Inr ([stored7 (JNumber (Fin 100)) (JNumber (Fin 100)) False],
          [Log_FetchedPrice ''0xt'' (JNumber (Fin 100)), Log_Outcome 7 None, Log_NoChange 7,
           Log_EstimatingGas, Log_EstimatedGas 100000, Log_FetchingGasPrice, Log_GasPrice 5,
           Log_SendingFrom ''0xdev'',
           SendSignedTransaction \<lparr>tx_from = ''0xdev'', tx_to = ''0xpod'',
             tx_data = SettleBetNoChange 7, tx_gas = 110000, tx_gasPrice = 5\<rparr>,
           Log_BetSettled 1])"
    by (simp add: fetchPriceAndUpdateBet_def quote_def stored7_def chain_up_def settleBet_def
        determineOutcome_def js_minus_def)
  have doc: "findOne 7 [stored7 (JNumber (Fin 100)) JNull False] =
      Some (stored7 (JNumber (Fin 100)) JNull False)"
    "initialPrice (stored7 (JNumber (Fin 100)) JNull False) \<noteq> JNull"
    by (simp_all add: stored7_def)
  have "list_all price_order [stored7 (JNumber (Fin 100)) (JNumber (Fin 100)) False]"
    using price_order_kept [OF start sample] found by blast
  with start doc sample show ?thesis by blast
qed

text \<open>The claim as the specification states it fails: the initial sample's request
  fails, the sample is dropped, and six minutes later the final sample records its price
  beside an initial price that is still \<^verbatim>\<open>null\<close>.\<close>

theorem final_without_initial_counterexample:
  "bets (fst (run init [BetInitialized None bet7, Tick 300000,
       TimerFires 0 (Failed ''timeout'') chain_up, Tick 360000,
       TimerFires 0 (quote 105) chain_up])) =
     [stored7 JNull (JNumber (Fin 105)) False] \<and>
   initialPrice (stored7 JNull (JNumber (Fin 105)) False) = JNull \<and>
   finalPrice (stored7 JNull (JNumber (Fin 105)) False) \<noteq> JNull \<and>
   \<not> price_order (stored7 JNull (JNumber (Fin 105)) False)"
  by (simp add: handleNewBetEvent_def init_def bet7_def fetchPriceAndUpdateBet_def quote_def
      stored7_def chain_up_def settleBet_def determineOutcome_def js_minus_def price_order_def)

section \<open>Failures of the settlement\<close>

text \<open>
  Claim C9, as the code has it. When one of the four calls of \<^verbatim>\<open>settleBet\<close> rejects
  (gas estimation, gas price, signing, broadcast), the last thing \<^verbatim>\<open>settleBet\<close> does
  is to print the error of the call with \<^verbatim>\<open>console.error\<close>; the line names no phase.
  No receipt is printed, the transaction is handed to the chain at most once, the sample
  step that called \<^verbatim>\<open>settleBet\<close> leaves every \<^verbatim>\<open>settled\<close> and \<^verbatim>\<open>outcome\<close> field
  as it was, and firing a timer arms no new timer: nothing is tried again.
\<close>

theorem settleBet_failure_contained:
  assumes "failing_phase w bid oc = Some (ph, e)"
  shows "last (settleBet w bid oc) = Err_SettlingBet e \<and>
         (\<forall>rc. Log_BetSettled rc \<notin> set (settleBet w bid oc)) \<and>
         length (sends (settleBet w bid oc)) \<le> 1 \<and>
         (fetchPriceAndUpdateBet r w tok bid key db = Inr (db', evs) \<longrightarrow>
            map settled db' = map settled db \<and> map outcome db' = map outcome db) \<and>
         length (timers (fst (step s (TimerFires k r w)))) \<le> length (timers s)"
proof -
  have "last (settleBet w bid oc) = Err_SettlingBet e \<and>
         (\<forall>rc. Log_BetSettled rc \<notin> set (settleBet w bid oc))"
    using assms
    by (auto simp: failing_phase_def settleBet_unfold split: sum.splits option.splits)
  moreover have "fetchPriceAndUpdateBet r w tok bid key db = Inr (db', evs) \<Longrightarrow>
            map settled db' = map settled db \<and> map outcome db' = map outcome db"
    using fetchPriceAndUpdateBet_map [of settled r w tok bid key db db' evs]
      fetchPriceAndUpdateBet_map [of outcome r w tok bid key db db' evs]
    by simp
  ultimately show ?thesis
    using settleBet_sends_le [of w bid oc] step_timers_le [of s k r w] by blast
qed

theorem settleBet_failure_contained_witness:
  "failing_phase (chain_up\<lparr>estimateGas := \<lambda>c. Inl ''reverted''\<rparr>) 7 (Some True) =
     Some (Estimation, ''reverted'') \<and>
   settleBet (chain_up\<lparr>estimateGas := \<lambda>c. Inl ''reverted''\<rparr>) 7 (Some True) =
     [Log_EstimatingGas, Err_SettlingBet ''reverted''] \<and>
   last (settleBet (chain_up\<lparr>estimateGas := \<lambda>c. Inl ''reverted''\<rparr>) 7 (Some True)) =
     Err_SettlingBet ''reverted''"
proof -
  have ph: "failing_phase (chain_up\<lparr>estimateGas := \<lambda>c. Inl ''reverted''\<rparr>) 7 (Some True) =
     Some (Estimation, ''reverted'')"
    by (simp add: failing_phase_def chain_up_def)
  have ev: "settleBet (chain_up\<lparr>estimateGas := \<lambda>c. Inl ''reverted''\<rparr>) 7 (Some True) =
     [Log_EstimatingGas, Err_SettlingBet ''reverted'']"
    by (simp add: settleBet_def chain_up_def)
  from settleBet_failure_contained [OF ph] ph ev show ?thesis by blast
qed

text \<open>The claim as the specification states it fails: a rejection at signing and the same
  rejection at the broadcast print the same lines, so what is reported does not tell the
  phase.\<close>

theorem failure_phase_not_reported_counterexample:
  "failing_phase (chain_up\<lparr>signTransaction := \<lambda>t. Some ''rejected''\<rparr>) 7 (Some True) =
     Some (Signing, ''rejected'') \<and>
   failing_phase (chain_up\<lparr>sendSignedTransaction := \<lambda>t. Inl ''rejected''\<rparr>) 7 (Some True) =
     Some (Broadcast, ''rejected'') \<and>
   console (settleBet (chain_up\<lparr>signTransaction := \<lambda>t. Some ''rejected''\<rparr>) 7 (Some True)) =
     [Log_EstimatingGas, Log_EstimatedGas 100000, Log_FetchingGasPrice, Log_GasPrice 5,
      Log_SendingFrom ''0xdev'', Err_SettlingBet ''rejected''] \<and>
   console (settleBet (chain_up\<lparr>sendSignedTransaction := \<lambda>t. Inl ''rejected''\<rparr>) 7 (Some True)) =
     [Log_EstimatingGas, Log_EstimatedGas 100000, Log_FetchingGasPrice, Log_GasPrice 5,
      Log_SendingFrom ''0xdev'', Err_SettlingBet ''rejected'']"
  by (simp add: failing_phase_def settleBet_def chain_up_def console_def)

end
